theory Spec2Isabelle
  imports Complex_Main
begin

section \<open>The skier of ceros-ski (src/Entities/Skier.js)\<close>

text \<open>
  The class \<open>Skier\<close> is embedded as a record of its fields and one function per method,
  each taking the skier and returning the updated skier. JavaScript numbers (position,
  speed, times) are modelled as exact reals; the direction, which the source stores as
  one of the numbers 0..4 and steps with \<open>direction - 1\<close> and \<open>direction + 1\<close>, is an
  integer; the animation frame cursor is a natural number. A JavaScript \<open>undefined\<close>
  or \<open>null\<close> is \<open>None\<close>.
\<close>

subsection \<open>Constants and collaborators\<close>

text \<open>
  Modelled from the spec: the table \<open>IMAGE_NAMES\<close> of \<open>../Constants\<close> is not among the
  sources. Its members named in Skier.js, and the tree named by the spec and by
  changes.md, are taken as distinct identifiers; any other identifier is \<open>OTHER_IMAGE\<close>.
\<close>

datatype image_name =
    SKIER_CRASH
  | SKIER_LEFT
  | SKIER_LEFTDOWN
  | SKIER_DOWN
  | SKIER_RIGHTDOWN
  | SKIER_RIGHT
  | SKIER_JUMP1
  | SKIER_JUMP2
  | SKIER_JUMP3
  | SKIER_JUMP4
  | SKIER_JUMP5
  | JUMP_RAMP
  | ROCK1
  | ROCK2
  | TREE
  | OTHER_IMAGE string

text \<open>
  Modelled from the spec: the table \<open>KEYS\<close> of \<open>../Constants\<close> is not among the sources.
  The five recognised commands (turn-left, turn-right, turn-up, turn-down, jump) are
  taken as five distinct key values; any other key is \<open>OTHER_KEY\<close>.
\<close>

datatype input_key =
    KEYS_LEFT
  | KEYS_RIGHT
  | KEYS_UP
  | KEYS_DOWN
  | KEYS_SPACE
  | OTHER_KEY string

text \<open>
  Modelled from the spec: \<open>Rect\<close> of \<open>../Core/Utils\<close> is not among the sources; it is
  the axis-aligned rectangle built as \<open>new Rect(left, top, right, bottom)\<close>.
\<close>

record rect =
  rect_left :: real
  rect_top :: real
  rect_right :: real
  rect_bottom :: real

text \<open>
  Modelled from the spec: what the Image Metrics Provider returns for an image
  identifier, \<open>{ width, height }\<close>.
\<close>

record image_metrics =
  width :: real
  height :: real

text \<open>
  Modelled from the spec: an obstacle of the Obstacle Source exposes its bounding
  rectangle (\<open>getBounds()\<close>) and its type tag (\<open>imageName\<close>).
\<close>

record obstacle =
  obstacle_imageName :: image_name
  obstacle_bounds :: rect

text \<open>
  The parts of the surrounding program that Skier.js uses and that are not among the
  sources are parameters of the model: the two numeric constants of \<open>../Constants\<close>,
  \<open>imageManager.getImage\<close> and \<open>intersectTwoRects\<close> of \<open>../Core/Utils\<close>.
\<close>

record env =
  DIAGONAL_SPEED_REDUCER :: real
  ANIMATION_FRAME_SPEED_MS :: real
  getImage :: "image_name option \<Rightarrow> image_metrics"
  intersectTwoRects :: "rect \<Rightarrow> rect \<Rightarrow> bool"

text \<open>
  Modelled from the spec: \<open>intersectTwoRects\<close> of \<open>../Core/Utils\<close> is not among the
  sources. Two rectangles overlap iff neither is entirely to one side of the other on
  either axis, with strict inequalities (touching edges do not overlap). Used only to
  instantiate the parameter at concrete inputs.
\<close>

definition spec_intersectTwoRects :: "rect \<Rightarrow> rect \<Rightarrow> bool" where
  "spec_intersectTwoRects rect1 rect2 =
     (rect_left rect1 < rect_right rect2 \<and> rect_left rect2 < rect_right rect1 \<and>
      rect_top rect1 < rect_bottom rect2 \<and> rect_top rect2 < rect_bottom rect1)"

definition STARTING_SPEED :: real where
  "STARTING_SPEED = 1"

datatype skier_state = STATE_SKIING | STATE_JUMPING | STATE_CRASHED | STATE_DEAD

definition JUMP_INITIATING_OBSTACLES :: "image_name set" where
  "JUMP_INITIATING_OBSTACLES = {JUMP_RAMP}"

definition JUMPABLE_OBSTACLES :: "image_name set" where
  "JUMPABLE_OBSTACLES = {JUMP_RAMP, ROCK1, ROCK2}"

definition DIRECTION_LEFT :: int where "DIRECTION_LEFT = 0"
definition DIRECTION_LEFT_DOWN :: int where "DIRECTION_LEFT_DOWN = 1"
definition DIRECTION_DOWN :: int where "DIRECTION_DOWN = 2"
definition DIRECTION_RIGHT_DOWN :: int where "DIRECTION_RIGHT_DOWN = 3"
definition DIRECTION_RIGHT :: int where "DIRECTION_RIGHT = 4"

definition IMAGES_JUMPING :: "image_name list" where
  "IMAGES_JUMPING = [SKIER_JUMP1, SKIER_JUMP2, SKIER_JUMP3, SKIER_JUMP4, SKIER_JUMP5]"

text \<open>The object \<open>DIRECTION_IMAGES\<close>; a key it does not have reads as \<open>undefined\<close>.\<close>

definition DIRECTION_IMAGES :: "int \<Rightarrow> image_name option" where
  "DIRECTION_IMAGES d =
     (if d = DIRECTION_LEFT then Some SKIER_LEFT
      else if d = DIRECTION_LEFT_DOWN then Some SKIER_LEFTDOWN
      else if d = DIRECTION_DOWN then Some SKIER_DOWN
      else if d = DIRECTION_RIGHT_DOWN then Some SKIER_RIGHTDOWN
      else if d = DIRECTION_RIGHT then Some SKIER_RIGHT
      else None)"

text \<open>Reading a JavaScript array at an index: \<open>undefined\<close> out of range.\<close>

definition js_index :: "'a list \<Rightarrow> nat \<Rightarrow> 'a option" where
  "js_index xs i = (if i < length xs then Some (xs ! i) else None)"

subsection \<open>Animations\<close>

text \<open>
  Modelled from the spec: the class \<open>Animation\<close> of \<open>../Core/Animation\<close> is not among
  the sources. An animation is a finite ordered list of image identifiers, a looping
  flag and a completion callback, read by \<open>getImages\<close>, \<open>getLooping\<close> and
  \<open>getCallback\<close>. The only callback Skier.js passes is its own \<open>finishJumping\<close>
  (bound to the skier), so the callback is a tag.
\<close>

datatype callback = FinishJumping

record animation =
  images :: "image_name list"
  looping :: bool
  callback :: callback

datatype error = TypeError

subsection \<open>The skier\<close>

text \<open>
  The fields of \<open>Skier\<close>; \<open>entity_x\<close> and \<open>entity_y\<close> are the position \<open>x\<close>, \<open>y\<close>
  inherited from \<open>Entity\<close>. \<open>callbacksFired\<close> is a ghost field that counts the
  invocations of an animation's completion callback; no method reads it.
\<close>

record skier =
  entity_x :: real
  entity_y :: real
  imageName :: "image_name option"
  state :: skier_state
  direction :: int
  speed :: real
  animations :: "skier_state \<Rightarrow> animation option"
  curAnimation :: "animation option"
  curAnimationFrame :: nat
  curAnimationFrameTime :: real
  callbacksFired :: nat

definition JUMP_ANIMATION :: animation where
  "JUMP_ANIMATION = \<lparr>images = IMAGES_JUMPING, looping = False, callback = FinishJumping\<rparr>"

definition setupAnimations :: "skier \<Rightarrow> skier" where
  "setupAnimations s = s\<lparr>animations := (animations s)(STATE_JUMPING \<mapsto> JUMP_ANIMATION)\<rparr>"

definition setAnimation :: "skier \<Rightarrow> skier" where
  "setAnimation s =
     (let s1 = s\<lparr>curAnimation := animations s (state s)\<rparr>
      in case curAnimation s1 of
           None \<Rightarrow> s1
         | Some a \<Rightarrow>
             (let s2 = s1\<lparr>curAnimationFrame := 0\<rparr>;
                  animateImages = images a
              in s2\<lparr>imageName := js_index animateImages (curAnimationFrame s2)\<rparr>))"

text \<open>
  The field initialisers and the constructor; \<open>now\<close> is the value of \<open>Date.now()\<close>
  when the skier is built.
\<close>

definition Skier :: "real \<Rightarrow> real \<Rightarrow> real \<Rightarrow> skier" where
  "Skier x0 y0 now =
     setAnimation (setupAnimations
       \<lparr>entity_x = x0, entity_y = y0, imageName = Some SKIER_DOWN, state = STATE_SKIING,
        direction = DIRECTION_DOWN, speed = STARTING_SPEED, animations = Map.empty,
        curAnimation = None, curAnimationFrame = 0, curAnimationFrameTime = now,
        callbacksFired = 0\<rparr>)"

definition setState :: "skier_state \<Rightarrow> skier \<Rightarrow> skier" where
  "setState newState s = setAnimation (s\<lparr>state := newState\<rparr>)"

definition isCrashed :: "skier \<Rightarrow> bool" where
  "isCrashed s = (state s = STATE_CRASHED)"

definition isJumping :: "skier \<Rightarrow> bool" where
  "isJumping s = (state s = STATE_JUMPING)"

definition isSkiing :: "skier \<Rightarrow> bool" where
  "isSkiing s = (state s = STATE_SKIING)"

definition isDead :: "skier \<Rightarrow> bool" where
  "isDead s = (state s = STATE_DEAD)"

definition setDirectionalImage :: "skier \<Rightarrow> skier" where
  "setDirectionalImage s = s\<lparr>imageName := DIRECTION_IMAGES (direction s)\<rparr>"

definition setDirection :: "int \<Rightarrow> skier \<Rightarrow> skier" where
  "setDirection d s = setDirectionalImage (s\<lparr>direction := d\<rparr>)"

subsection \<open>Movement\<close>

text \<open>
  The division is that of the reals: a reducer of 0, on which JavaScript gives an
  infinite or undefined number, is outside the model (HOL gives 0). No property below
  depends on the diagonal moves.
\<close>

definition moveSkierLeft :: "skier \<Rightarrow> skier" where
  "moveSkierLeft s = s\<lparr>entity_x := entity_x s - STARTING_SPEED\<rparr>"

definition moveSkierLeftDown :: "env \<Rightarrow> skier \<Rightarrow> skier" where
  "moveSkierLeftDown env s =
     (let s1 = s\<lparr>entity_x := entity_x s - speed s / DIAGONAL_SPEED_REDUCER env\<rparr>
      in s1\<lparr>entity_y := entity_y s1 + speed s1 / DIAGONAL_SPEED_REDUCER env\<rparr>)"

definition moveSkierDown :: "skier \<Rightarrow> skier" where
  "moveSkierDown s = s\<lparr>entity_y := entity_y s + speed s\<rparr>"

definition moveSkierRightDown :: "env \<Rightarrow> skier \<Rightarrow> skier" where
  "moveSkierRightDown env s =
     (let s1 = s\<lparr>entity_x := entity_x s + speed s / DIAGONAL_SPEED_REDUCER env\<rparr>
      in s1\<lparr>entity_y := entity_y s1 + speed s1 / DIAGONAL_SPEED_REDUCER env\<rparr>)"

definition moveSkierRight :: "skier \<Rightarrow> skier" where
  "moveSkierRight s = s\<lparr>entity_x := entity_x s + STARTING_SPEED\<rparr>"

definition moveSkierUp :: "skier \<Rightarrow> skier" where
  "moveSkierUp s = s\<lparr>entity_y := entity_y s - STARTING_SPEED\<rparr>"

definition move :: "env \<Rightarrow> skier \<Rightarrow> skier" where
  "move env s =
     (if direction s = DIRECTION_LEFT_DOWN then moveSkierLeftDown env s
      else if direction s = DIRECTION_DOWN then moveSkierDown s
      else if direction s = DIRECTION_RIGHT_DOWN then moveSkierRightDown env s
      else s)"

subsection \<open>Crashing, recovering, dying, jumping\<close>

definition crash :: "skier \<Rightarrow> skier" where
  "crash s = s\<lparr>state := STATE_CRASHED, speed := 0, imageName := Some SKIER_CRASH\<rparr>"

definition recoverFromCrash :: "int \<Rightarrow> skier \<Rightarrow> skier" where
  "recoverFromCrash newDirection s =
     setDirection newDirection (s\<lparr>state := STATE_SKIING, speed := STARTING_SPEED\<rparr>)"

definition die :: "skier \<Rightarrow> skier" where
  "die s = s\<lparr>state := STATE_DEAD, speed := 0\<rparr>"

definition jump :: "skier \<Rightarrow> skier" where
  "jump s = (if isCrashed s \<or> isJumping s then s else setState STATE_JUMPING s)"

definition finishJumping :: "skier \<Rightarrow> skier" where
  "finishJumping s = (if isCrashed s then s else s\<lparr>state := STATE_SKIING\<rparr>)"

subsection \<open>Input\<close>

definition turnLeft :: "skier \<Rightarrow> skier" where
  "turnLeft s =
     (let s1 = (if isCrashed s then recoverFromCrash DIRECTION_LEFT s else s)
      in if direction s1 = DIRECTION_LEFT then moveSkierLeft s1
         else setDirection (direction s1 - 1) s1)"

definition turnRight :: "skier \<Rightarrow> skier" where
  "turnRight s =
     (let s1 = (if isCrashed s then recoverFromCrash DIRECTION_RIGHT s else s)
      in if direction s1 = DIRECTION_RIGHT then moveSkierRight s1
         else setDirection (direction s1 + 1) s1)"

definition turnUp :: "skier \<Rightarrow> skier" where
  "turnUp s =
     (if isCrashed s then s
      else if direction s = DIRECTION_LEFT \<or> direction s = DIRECTION_RIGHT then moveSkierUp s
      else s)"

definition turnDown :: "skier \<Rightarrow> skier" where
  "turnDown s = (if isCrashed s then s else setDirection DIRECTION_DOWN s)"

text \<open>
  \<open>handleInput\<close> returns the flag \<open>handled\<close> and the updated skier. The case of
  \<open>KEYS.SPACE\<close> has no \<open>break\<close>: after \<open>this.jump()\<close> control falls into
  \<open>default\<close>, which sets \<open>handled = false\<close>.
\<close>

definition handleInput :: "input_key \<Rightarrow> skier \<Rightarrow> bool \<times> skier" where
  "handleInput inputKey s =
     (if isDead s then (False, s)
      else case inputKey of
             KEYS_LEFT \<Rightarrow> (True, turnLeft s)
           | KEYS_RIGHT \<Rightarrow> (True, turnRight s)
           | KEYS_UP \<Rightarrow> (True, turnUp s)
           | KEYS_DOWN \<Rightarrow> (True, turnDown s)
           | KEYS_SPACE \<Rightarrow> (False, jump s)
           | OTHER_KEY k \<Rightarrow> (False, s))"

subsection \<open>Animation sequencing\<close>

text \<open>
  \<open>finishAnimation\<close> and \<open>nextAnimationFrame\<close> dereference \<open>this.curAnimation\<close>
  without a check: on \<open>null\<close> they raise a TypeError.
\<close>

definition apply_callback :: "callback \<Rightarrow> skier \<Rightarrow> skier" where
  "apply_callback cb s =
     (case cb of FinishJumping \<Rightarrow> finishJumping (s\<lparr>callbacksFired := callbacksFired s + 1\<rparr>))"

definition finishAnimation :: "skier \<Rightarrow> error + skier" where
  "finishAnimation s =
     (case curAnimation s of
        None \<Rightarrow> Inl TypeError
      | Some a \<Rightarrow>
          (let animationCallback = callback a;
               s1 = s\<lparr>curAnimation := None\<rparr>
           in Inr (apply_callback animationCallback s1)))"

definition nextAnimationFrame :: "real \<Rightarrow> skier \<Rightarrow> error + skier" where
  "nextAnimationFrame gameTime s =
     (case curAnimation s of
        None \<Rightarrow> Inl TypeError
      | Some a \<Rightarrow>
          (let animationImages = images a;
               s1 = s\<lparr>curAnimationFrameTime := gameTime\<rparr>;
               s2 = s1\<lparr>curAnimationFrame := curAnimationFrame s1 + 1\<rparr>
           in if curAnimationFrame s2 \<ge> length animationImages then
                (if \<not> looping a then finishAnimation s2
                 else (let s3 = s2\<lparr>curAnimationFrame := 0\<rparr>
                       in Inr (s3\<lparr>imageName := js_index animationImages (curAnimationFrame s3)\<rparr>)))
              else Inr (s2\<lparr>imageName := js_index animationImages (curAnimationFrame s2)\<rparr>)))"

definition animate :: "env \<Rightarrow> real \<Rightarrow> skier \<Rightarrow> error + skier" where
  "animate env gameTime s =
     (if curAnimation s = None then Inr s
      else if gameTime - curAnimationFrameTime s > ANIMATION_FRAME_SPEED_MS env
           then nextAnimationFrame gameTime s
      else Inr s)"

subsection \<open>Collision\<close>

definition getBounds :: "env \<Rightarrow> skier \<Rightarrow> rect" where
  "getBounds env s =
     (let image = getImage env (imageName s)
      in \<lparr>rect_left = entity_x s - width image / 2,
          rect_top = entity_y s - height image / 2,
          rect_right = entity_x s + width image / 2,
          rect_bottom = entity_y s - height image / 4\<rparr>)"

text \<open>
  \<open>obstacles\<close> is what \<open>this.obstacleManager.getObstacles()\<close> returns in this frame;
  \<open>Array.find\<close> gives the first element that satisfies the test, or \<open>undefined\<close>.
\<close>

definition checkIfHitObstacle :: "env \<Rightarrow> obstacle list \<Rightarrow> skier \<Rightarrow> skier" where
  "checkIfHitObstacle env obstacles s =
     (let skierBounds = getBounds env s;
          collision = find (\<lambda>ob. intersectTwoRects env skierBounds (obstacle_bounds ob)) obstacles
      in case collision of
           None \<Rightarrow> s
         | Some c \<Rightarrow>
             (let ob = obstacle_imageName c
              in if isJumping s \<and> ob \<in> JUMPABLE_OBSTACLES then s
                 else if isSkiing s \<and> ob \<in> JUMP_INITIATING_OBSTACLES then jump s
                 else crash s))"

subsection \<open>The frame update\<close>

definition update :: "env \<Rightarrow> real \<Rightarrow> obstacle list \<Rightarrow> skier \<Rightarrow> error + skier" where
  "update env gameTime obstacles s =
     (let s1 = (if isJumping s \<or> isSkiing s
                then checkIfHitObstacle env obstacles (move env s) else s)
      in if isJumping s1 then animate env gameTime s1 else Inr s1)"

subsection \<open>The driver\<close>

text \<open>
  The game loop calls \<open>update\<close> once per frame and \<open>handleInput\<close> on each input event,
  one at a time. A run applies a list of such calls in order and stops at a fault.
\<close>

datatype operation = Update real "obstacle list" | HandleInput input_key

fun run :: "env \<Rightarrow> operation list \<Rightarrow> skier \<Rightarrow> error + skier" where
  "run env [] s = Inr s"
| "run env (Update gameTime obstacles # ops) s =
     (case update env gameTime obstacles s of
        Inl e \<Rightarrow> Inl e
      | Inr s' \<Rightarrow> run env ops s')"
| "run env (HandleInput inputKey # ops) s = run env ops (snd (handleInput inputKey s))"

text \<open>
  The states the skier can be in: built by the constructor, then changed by frame
  updates, input events and the death trigger \<open>die\<close> (called by the pursuer).
\<close>

inductive reachable :: "env \<Rightarrow> skier \<Rightarrow> bool" for env :: env where
  reachable_new: "reachable env (Skier x0 y0 now)"
| reachable_update:
    "reachable env s \<Longrightarrow> update env gameTime obstacles s = Inr s' \<Longrightarrow> reachable env s'"
| reachable_input: "reachable env s \<Longrightarrow> reachable env (snd (handleInput inputKey s))"
| reachable_die: "reachable env s \<Longrightarrow> reachable env (die s)"

text \<open>The state of the skier after a call that may fault.\<close>

definition state_after :: "error + skier \<Rightarrow> skier_state option" where
  "state_after r = (case r of Inl e \<Rightarrow> None | Inr s \<Rightarrow> Some (state s))"

subsection \<open>Concrete inputs\<close>

text \<open>
  An environment for evaluating the model: every sprite is 20 by 40 pixels, a frame of
  an animation is shown for 250 ms, rectangles overlap as the spec describes.
\<close>

definition example_env :: env where
  "example_env =
     \<lparr>DIAGONAL_SPEED_REDUCER = 14142 / 10000, ANIMATION_FRAME_SPEED_MS = 250,
      getImage = (\<lambda>name. \<lparr>width = 20, height = 40\<rparr>),
      intersectTwoRects = spec_intersectTwoRects\<rparr>"

text \<open>An obstacle of the given type that covers the square from (-100,-100) to (100,100).\<close>

definition big_obstacle :: "image_name \<Rightarrow> obstacle" where
  "big_obstacle name =
     \<lparr>obstacle_imageName = name,
      obstacle_bounds = \<lparr>rect_left = -100, rect_top = -100, rect_right = 100, rect_bottom = 100\<rparr>\<rparr>"

text \<open>
  The obstacle that \<open>checkIfHitObstacle\<close> finds: the first one, in the order of the
  Obstacle Source, whose rectangle intersects the skier's bounds.
\<close>

definition first_overlap :: "env \<Rightarrow> obstacle list \<Rightarrow> skier \<Rightarrow> obstacle option" where
  "first_overlap env obstacles s =
     find (\<lambda>ob. intersectTwoRects env (getBounds env s) (obstacle_bounds ob)) obstacles"

text \<open>
  The condition under which \<open>animate\<close> reaches \<open>finishAnimation\<close>: an animation is
  active, the frame has been shown for longer than the frame duration, the next cursor
  position is past the last image and the animation does not loop.
\<close>

definition animation_completes :: "env \<Rightarrow> real \<Rightarrow> skier \<Rightarrow> bool" where
  "animation_completes env gameTime s =
     (case curAnimation s of
        None \<Rightarrow> False
      | Some a \<Rightarrow> ANIMATION_FRAME_SPEED_MS env < gameTime - curAnimationFrameTime s \<and>
                  length (images a) \<le> curAnimationFrame s + 1 \<and> \<not> looping a)"

text \<open>
  A sequence of calls of \<open>animate\<close>, each at its own game time; before a call whose flag
  is set the skier is crashed by \<open>crash\<close> (a collision during the jump).
\<close>

fun frame_advances :: "env \<Rightarrow> (bool \<times> real) list \<Rightarrow> skier \<Rightarrow> error + skier" where
  "frame_advances env [] s = Inr s"
| "frame_advances env ((crashes, gameTime) # rest) s =
     (case animate env gameTime (if crashes then crash s else s) of
        Inl e \<Rightarrow> Inl e
      | Inr s' \<Rightarrow> frame_advances env rest s')"

text \<open>
  The skier built at (0,0) at time 0 after the jump key and four frames 300 ms apart:
  jumping, on the last image of the jump animation.
\<close>

definition jumper_on_last_frame :: skier where
  "jumper_on_last_frame =
     \<lparr>entity_x = 0, entity_y = 4, imageName = Some SKIER_JUMP5, state = STATE_JUMPING,
      direction = DIRECTION_DOWN, speed = 1, animations = [STATE_JUMPING \<mapsto> JUMP_ANIMATION],
      curAnimation = Some JUMP_ANIMATION, curAnimationFrame = 4, curAnimationFrameTime = 1200,
      callbacksFired = 0\<rparr>"

text \<open>The skier built at (0,0) after two turns to the left and the jump key.\<close>

definition jumper_facing_left :: skier where
  "jumper_facing_left =
     snd (handleInput KEYS_SPACE
       (snd (handleInput KEYS_LEFT (snd (handleInput KEYS_LEFT (Skier 0 0 0))))))"

text \<open>The skier built at (0,0) after the frame in which it hits a tree.\<close>

definition crashed_skier :: skier where
  "crashed_skier =
     (Skier 0 0 0)\<lparr>entity_y := 1, imageName := Some SKIER_CRASH, state := STATE_CRASHED,
       speed := 0\<rparr>"

text \<open>
  The skier built at (0,0) after two turns to the left and the frame in which it hits a
  tree: crashed while facing full left.
\<close>

definition crashed_facing_left :: skier where
  "crashed_facing_left =
     (Skier 0 0 0)\<lparr>direction := DIRECTION_LEFT, imageName := Some SKIER_CRASH,
       state := STATE_CRASHED, speed := 0\<rparr>"

text \<open>Two invariants of the reachable states, used in the proofs below.\<close>

definition stopped_inv :: "skier \<Rightarrow> bool" where
  "stopped_inv s = (state s \<in> {STATE_CRASHED, STATE_DEAD} \<longrightarrow> speed s = 0)"

definition animation_inv :: "skier \<Rightarrow> bool" where
  "animation_inv s =
     (animations s STATE_JUMPING \<noteq> None \<and>
      (state s = STATE_JUMPING \<longrightarrow> curAnimation s \<noteq> None))"

lemmas skier_defs =
  STARTING_SPEED_def JUMP_INITIATING_OBSTACLES_def JUMPABLE_OBSTACLES_def
  DIRECTION_LEFT_def DIRECTION_LEFT_DOWN_def DIRECTION_DOWN_def DIRECTION_RIGHT_DOWN_def
  DIRECTION_RIGHT_def IMAGES_JUMPING_def DIRECTION_IMAGES_def js_index_def JUMP_ANIMATION_def
  setupAnimations_def setAnimation_def Skier_def setState_def isCrashed_def isJumping_def
  isSkiing_def isDead_def setDirectionalImage_def setDirection_def moveSkierLeft_def
  moveSkierLeftDown_def moveSkierDown_def moveSkierRightDown_def moveSkierRight_def
  moveSkierUp_def move_def crash_def recoverFromCrash_def die_def jump_def finishJumping_def
  turnLeft_def turnRight_def turnUp_def turnDown_def handleInput_def apply_callback_def
  finishAnimation_def nextAnimationFrame_def animate_def getBounds_def
  checkIfHitObstacle_def update_def

lemmas example_defs =
  example_env_def big_obstacle_def spec_intersectTwoRects_def state_after_def
  first_overlap_def jumper_on_last_frame_def jumper_facing_left_def crashed_skier_def
  crashed_facing_left_def

section \<open>Properties\<close>

subsection \<open>Auxiliary facts\<close>

lemma checkIfHitObstacle_first_overlap:
  "checkIfHitObstacle env obstacles s =
     (case first_overlap env obstacles s of
        None \<Rightarrow> s
      | Some c \<Rightarrow>
          if isJumping s \<and> obstacle_imageName c \<in> JUMPABLE_OBSTACLES then s
          else if isSkiing s \<and> obstacle_imageName c \<in> JUMP_INITIATING_OBSTACLES then jump s
          else crash s)"
  by (simp add: checkIfHitObstacle_def first_overlap_def Let_def split: option.split)

lemma move_keeps:
  "state (move env s) = state s" "speed (move env s) = speed s"
  "curAnimation (move env s) = curAnimation s" "animations (move env s) = animations s"
  "curAnimationFrame (move env s) = curAnimationFrame s"
  "curAnimationFrameTime (move env s) = curAnimationFrameTime s"
  "imageName (move env s) = imageName s" "direction (move env s) = direction s"
  "callbacksFired (move env s) = callbacksFired s"
  by (simp_all add: move_def moveSkierLeftDown_def moveSkierDown_def moveSkierRightDown_def
        Let_def)

lemma handleInput_dead: "state s = STATE_DEAD \<Longrightarrow> handleInput inputKey s = (False, s)"
  by (simp add: handleInput_def isDead_def)

lemma handleInput_turns_handled:
  "state s \<noteq> STATE_DEAD \<Longrightarrow> inputKey \<in> {KEYS_LEFT, KEYS_RIGHT, KEYS_UP, KEYS_DOWN} \<Longrightarrow>
   fst (handleInput inputKey s)"
  by (auto simp add: handleInput_def isDead_def)

lemma handleInput_other_unhandled: "handleInput (OTHER_KEY k) s = (False, s)"
  by (simp add: handleInput_def isDead_def)

lemma update_never_faults: "\<exists>s'. update env gameTime obstacles s = Inr s'"
  by (cases "curAnimation (checkIfHitObstacle env obstacles (move env s))")
     (auto simp add: update_def animate_def nextAnimationFrame_def finishAnimation_def Let_def)

lemma update_no_obstacles:
  "update env gameTime [] s =
     (if isJumping s then animate env gameTime (move env s)
      else Inr (if isSkiing s then move env s else s))"
  by (simp add: update_def checkIfHitObstacle_def isJumping_def isSkiing_def move_keeps Let_def)

lemma crashed_skier_reached:
  "update example_env 300 [big_obstacle TREE] (Skier 0 0 0) = Inr crashed_skier"
  by (simp add: skier_defs example_defs Let_def)

lemma reachable_crashed_skier: "reachable example_env crashed_skier"
  using reachable_update [OF reachable_new crashed_skier_reached] .

lemma setAnimation_keeps: "state (setAnimation s) = state s" "speed (setAnimation s) = speed s"
  by (simp_all add: setAnimation_def Let_def split: option.split)

text \<open>Every operation keeps \<open>stopped_inv\<close>.\<close>

lemma checkIfHitObstacle_stopped:
  "stopped_inv s \<Longrightarrow> stopped_inv (checkIfHitObstacle env obstacles s)"
  by (auto simp add: checkIfHitObstacle_first_overlap stopped_inv_def jump_def setState_def
        setAnimation_keeps crash_def split: option.split)

lemma animate_stopped:
  "stopped_inv s \<Longrightarrow> animate env gameTime s = Inr s' \<Longrightarrow> stopped_inv s'"
  by (cases "curAnimation s"; cases "callback (the (curAnimation s))")
     (auto simp add: animate_def nextAnimationFrame_def finishAnimation_def apply_callback_def
        finishJumping_def isCrashed_def stopped_inv_def Let_def split: if_splits)

lemma update_stopped:
  assumes "stopped_inv s" and "update env gameTime obstacles s = Inr s'"
  shows "stopped_inv s'"
proof -
  let ?s1 = "if isJumping s \<or> isSkiing s
             then checkIfHitObstacle env obstacles (move env s) else s"
  have "stopped_inv (move env s)"
    using assms(1) by (simp add: stopped_inv_def move_keeps)
  then have "stopped_inv ?s1"
    using assms(1) by (simp add: checkIfHitObstacle_stopped)
  moreover have "s' = ?s1 \<or> animate env gameTime ?s1 = Inr s'"
    using assms(2) by (auto simp add: update_def Let_def split: if_splits)
  ultimately show ?thesis
    using animate_stopped by blast
qed

lemma handleInput_stopped: "stopped_inv s \<Longrightarrow> stopped_inv (snd (handleInput inputKey s))"
  by (cases inputKey)
     (auto simp add: handleInput_def stopped_inv_def turnLeft_def turnRight_def turnUp_def
        turnDown_def jump_def setState_def setAnimation_keeps recoverFromCrash_def
        setDirection_def setDirectionalImage_def moveSkierLeft_def moveSkierRight_def
        moveSkierUp_def isCrashed_def isDead_def isJumping_def Let_def)

lemma reachable_stopped: "reachable env s \<Longrightarrow> stopped_inv s"
proof (induction rule: reachable.induct)
  case (reachable_new x0 y0 now)
  show ?case by (simp add: stopped_inv_def skier_defs)
next
  case (reachable_update s gameTime obstacles s')
  then show ?case using update_stopped by blast
next
  case (reachable_input s inputKey)
  then show ?case by (simp add: handleInput_stopped)
next
  case (reachable_die s)
  show ?case by (simp add: stopped_inv_def die_def)
qed

text \<open>Every operation keeps \<open>animation_inv\<close>.\<close>

lemma jump_animation_inv: "animation_inv s \<Longrightarrow> animation_inv (jump s)"
  by (auto simp add: animation_inv_def jump_def setState_def setAnimation_def Let_def
        split: option.split)

lemma crash_animation_inv: "animation_inv s \<Longrightarrow> animation_inv (crash s)"
  by (simp add: animation_inv_def crash_def)

lemma checkIfHitObstacle_animation_inv:
  "animation_inv s \<Longrightarrow> animation_inv (checkIfHitObstacle env obstacles s)"
  by (simp add: checkIfHitObstacle_first_overlap jump_animation_inv crash_animation_inv
        split: option.split)

lemma animate_animation_inv:
  "animation_inv s \<Longrightarrow> state s = STATE_JUMPING \<Longrightarrow> animate env gameTime s = Inr s' \<Longrightarrow>
   animation_inv s'"
  by (cases "curAnimation s"; cases "callback (the (curAnimation s))")
     (auto simp add: animate_def nextAnimationFrame_def finishAnimation_def apply_callback_def
        finishJumping_def isCrashed_def animation_inv_def Let_def split: if_splits)

lemma update_animation_inv:
  assumes "animation_inv s" and "update env gameTime obstacles s = Inr s'"
  shows "animation_inv s'"
proof -
  let ?s1 = "if isJumping s \<or> isSkiing s
             then checkIfHitObstacle env obstacles (move env s) else s"
  have "animation_inv (move env s)"
    using assms(1) by (simp add: animation_inv_def move_keeps)
  then have inv1: "animation_inv ?s1"
    using assms(1) by (simp add: checkIfHitObstacle_animation_inv)
  have "s' = ?s1 \<or> (state ?s1 = STATE_JUMPING \<and> animate env gameTime ?s1 = Inr s')"
    using assms(2) by (auto simp add: update_def isJumping_def Let_def split: if_splits)
  then show ?thesis
    using inv1 animate_animation_inv by blast
qed

lemma turns_animation_inv:
  assumes "animation_inv s"
  shows "animation_inv (turnLeft s)" "animation_inv (turnRight s)"
    "animation_inv (turnUp s)" "animation_inv (turnDown s)"
  using assms
  by (auto simp add: animation_inv_def turnLeft_def turnRight_def turnUp_def
        turnDown_def recoverFromCrash_def
        setDirection_def setDirectionalImage_def moveSkierLeft_def moveSkierRight_def
        moveSkierUp_def isCrashed_def Let_def)

lemma handleInput_animation_inv:
  "animation_inv s \<Longrightarrow> animation_inv (snd (handleInput inputKey s))"
  by (cases inputKey) (simp_all add: handleInput_def jump_animation_inv turns_animation_inv)

text \<open>
  One half of the relation between the jumping state and the active animation holds in
  every reachable state: a jumping skier has an active animation.
\<close>

lemma jumping_has_animation:
  "reachable env s \<Longrightarrow> state s = STATE_JUMPING \<Longrightarrow> curAnimation s \<noteq> None"
proof -
  assume r: "reachable env s" and j: "state s = STATE_JUMPING"
  from r have "animation_inv s"
  proof (induction rule: reachable.induct)
    case (reachable_new x0 y0 now)
    show ?case by (simp add: animation_inv_def skier_defs)
  next
    case (reachable_update s gameTime obstacles s')
    then show ?case using update_animation_inv by blast
  next
    case (reachable_input s inputKey)
    then show ?case by (simp add: handleInput_animation_inv)
  next
    case (reachable_die s)
    then show ?case by (simp add: animation_inv_def die_def)
  qed
  with j show ?thesis by (simp add: animation_inv_def)
qed

lemma update_dead: "state s = STATE_DEAD \<Longrightarrow> update env gameTime obstacles s = Inr s"
  by (simp add: update_def isJumping_def isSkiing_def)

lemma run_dead: "state s = STATE_DEAD \<Longrightarrow> run env ops s = Inr s"
proof (induction ops)
  case Nil
  show ?case by simp
next
  case (Cons op ops)
  then show ?case by (cases op) (simp_all add: update_dead handleInput_dead)
qed

subsection \<open>Input handling\<close>

text \<open>
  C1. The claim: \<open>handleInput\<close> returns false when the skier is dead, without changing
  any field; returns true for each of the five recognised commands (turn-left,
  turn-right, turn-up, turn-down, jump) when the skier is not dead; and returns false
  for any other command. The code does so for the dead skier, for the four turns and
  for unknown keys (lemmas \<open>handleInput_dead\<close>, \<open>handleInput_turns_handled\<close>,
  \<open>handleInput_other_unhandled\<close>), but not for the jump command: the \<open>case\<close> of the
  jump key has no \<open>break\<close>, so on a freshly built skier the jump is performed (the
  state becomes jumping) and the call still returns false.
\<close>

theorem handleInput_jump_reports_unhandled:
  "state (Skier 100 100 0) \<noteq> STATE_DEAD \<and>
   fst (handleInput KEYS_SPACE (Skier 100 100 0)) = False \<and>
   state (snd (handleInput KEYS_SPACE (Skier 100 100 0))) = STATE_JUMPING"
  by (simp add: skier_defs)

subsection \<open>The active animation\<close>

text \<open>
  C2. The claim: in every state reachable from the new skier by frame updates and
  inputs, the state is jumping if and only if \<open>curAnimation\<close> is not null. The code
  breaks the direction from right to left: a skier that jumps and hits a tree in the
  next frame is crashed by \<open>crash\<close>, which leaves \<open>curAnimation\<close> at the jump animation.
\<close>

theorem crash_while_jumping_keeps_animation:
  "run example_env [HandleInput KEYS_SPACE, Update 300 [big_obstacle TREE]] (Skier 0 0 0) =
     Inr (crashed_skier\<lparr>curAnimation := Some JUMP_ANIMATION\<rparr>) \<and>
   state (crashed_skier\<lparr>curAnimation := Some JUMP_ANIMATION\<rparr>) = STATE_CRASHED \<and>
   curAnimation (crashed_skier\<lparr>curAnimation := Some JUMP_ANIMATION\<rparr>) \<noteq> None"
  by (simp add: skier_defs example_defs Let_def)

subsection \<open>Collision policy\<close>

text \<open>
  C3, as claimed, fails: in a frame in which a jumping skier overlaps a jumpable
  obstacle the state need not be jumping after the frame. The skier
  \<open>jumper_on_last_frame\<close> is reached from the new skier; in its next frame, 300 ms
  later, it overlaps a jump ramp (jumpable), the collision check ignores the ramp, and
  the animation step of the same frame completes the jump: the state is skiing.
\<close>

theorem jumpable_overlap_counterexample:
  "run example_env
     [HandleInput KEYS_SPACE, Update 300 [], Update 600 [], Update 900 [], Update 1200 []]
     (Skier 0 0 0) = Inr jumper_on_last_frame \<and>
   state jumper_on_last_frame = STATE_JUMPING \<and>
   first_overlap example_env [big_obstacle JUMP_RAMP] (move example_env jumper_on_last_frame) =
     Some (big_obstacle JUMP_RAMP) \<and>
   obstacle_imageName (big_obstacle JUMP_RAMP) \<in> JUMPABLE_OBSTACLES \<and>
   state_after (update example_env 1500 [big_obstacle JUMP_RAMP] jumper_on_last_frame) =
     Some STATE_SKIING"
  by (simp add: skier_defs example_defs Let_def)

text \<open>
  C3, amended. In one frame update in which \<open>c\<close> is the first obstacle that overlaps the
  skier's bounds (taken after the move of that frame):
  if the skier is jumping and the type of \<open>c\<close> is jumpable, the collision check changes
  nothing, and after the frame the state is jumping unless the animation step of the
  frame completes the animation, in which case it is skiing;
  if the skier is skiing and the type of \<open>c\<close> is not jump-initiating, the state becomes
  crashed and the speed 0;
  if the skier is skiing and the type of \<open>c\<close> is jump-initiating (and the skier owns
  the jump animation, as every skier built by the constructor does), the state becomes
  jumping with the jump animation active, on its first or second image.
\<close>

theorem collision_policy:
  assumes "first_overlap env obstacles (move env s) = Some c"
  shows "(state s = STATE_JUMPING \<and> obstacle_imageName c \<in> JUMPABLE_OBSTACLES \<longrightarrow>
            checkIfHitObstacle env obstacles (move env s) = move env s \<and>
            (\<exists>s'. update env gameTime obstacles s = Inr s' \<and>
                  state s' = (if animation_completes env gameTime s then STATE_SKIING
                              else STATE_JUMPING))) \<and>
         (state s = STATE_SKIING \<and> obstacle_imageName c \<notin> JUMP_INITIATING_OBSTACLES \<longrightarrow>
            (\<exists>s'. update env gameTime obstacles s = Inr s' \<and>
                  state s' = STATE_CRASHED \<and> speed s' = 0)) \<and>
         (state s = STATE_SKIING \<and> obstacle_imageName c \<in> JUMP_INITIATING_OBSTACLES \<and>
          animations s STATE_JUMPING = Some JUMP_ANIMATION \<longrightarrow>
            (\<exists>s'. update env gameTime obstacles s = Inr s' \<and> state s' = STATE_JUMPING \<and>
                  curAnimation s' = Some JUMP_ANIMATION \<and> curAnimationFrame s' \<le> 1))"
proof (intro conjI impI)
  assume a: "state s = STATE_JUMPING \<and> obstacle_imageName c \<in> JUMPABLE_OBSTACLES"
  then show chk: "checkIfHitObstacle env obstacles (move env s) = move env s"
    using assms by (simp add: checkIfHitObstacle_first_overlap isJumping_def move_keeps)
  from a have "update env gameTime obstacles s = animate env gameTime (move env s)"
    by (simp add: update_def chk isJumping_def move_keeps)
  then show "\<exists>s'. update env gameTime obstacles s = Inr s' \<and>
                  state s' = (if animation_completes env gameTime s then STATE_SKIING
                              else STATE_JUMPING)"
    using a
    by (cases "curAnimation s"; cases "callback (the (curAnimation s))")
       (auto simp add: animate_def nextAnimationFrame_def finishAnimation_def
          apply_callback_def finishJumping_def isCrashed_def animation_completes_def
          move_keeps Let_def)
next
  assume a: "state s = STATE_SKIING \<and> obstacle_imageName c \<notin> JUMP_INITIATING_OBSTACLES"
  then have "checkIfHitObstacle env obstacles (move env s) = crash (move env s)"
    using assms
    by (simp add: checkIfHitObstacle_first_overlap isJumping_def isSkiing_def move_keeps)
  then show "\<exists>s'. update env gameTime obstacles s = Inr s' \<and>
                  state s' = STATE_CRASHED \<and> speed s' = 0"
    using a by (simp add: update_def isJumping_def isSkiing_def crash_def)
next
  assume a: "state s = STATE_SKIING \<and> obstacle_imageName c \<in> JUMP_INITIATING_OBSTACLES \<and>
          animations s STATE_JUMPING = Some JUMP_ANIMATION"
  then have "checkIfHitObstacle env obstacles (move env s) = jump (move env s)"
    using assms
    by (simp add: checkIfHitObstacle_first_overlap isJumping_def isSkiing_def move_keeps)
  then show "\<exists>s'. update env gameTime obstacles s = Inr s' \<and> state s' = STATE_JUMPING \<and>
                  curAnimation s' = Some JUMP_ANIMATION \<and> curAnimationFrame s' \<le> 1"
    using a
    by (simp add: update_def isJumping_def isSkiing_def isCrashed_def jump_def setState_def
          setAnimation_def animate_def nextAnimationFrame_def move_keeps Let_def
          JUMP_ANIMATION_def IMAGES_JUMPING_def)
qed

theorem collision_policy_witness:
  "first_overlap example_env [big_obstacle ROCK1] (move example_env jumper_on_last_frame) =
     Some (big_obstacle ROCK1) \<and>
   state jumper_on_last_frame = STATE_JUMPING \<and>
   obstacle_imageName (big_obstacle ROCK1) \<in> JUMPABLE_OBSTACLES \<and>
   \<not> animation_completes example_env 1300 jumper_on_last_frame \<and>
   state_after (update example_env 1300 [big_obstacle ROCK1] jumper_on_last_frame) =
     Some STATE_JUMPING \<and>
   first_overlap example_env [big_obstacle TREE] (move example_env (Skier 0 0 0)) =
     Some (big_obstacle TREE) \<and>
   state (Skier 0 0 0) = STATE_SKIING \<and>
   obstacle_imageName (big_obstacle TREE) \<notin> JUMP_INITIATING_OBSTACLES \<and>
   state_after (update example_env 300 [big_obstacle TREE] (Skier 0 0 0)) =
     Some STATE_CRASHED \<and>
   first_overlap example_env [big_obstacle JUMP_RAMP] (move example_env (Skier 0 0 0)) =
     Some (big_obstacle JUMP_RAMP) \<and>
   obstacle_imageName (big_obstacle JUMP_RAMP) \<in> JUMP_INITIATING_OBSTACLES \<and>
   animations (Skier 0 0 0) STATE_JUMPING = Some JUMP_ANIMATION \<and>
   state_after (update example_env 300 [big_obstacle JUMP_RAMP] (Skier 0 0 0)) =
     Some STATE_JUMPING"
  using
    collision_policy [of example_env "[big_obstacle ROCK1]" jumper_on_last_frame
      "big_obstacle ROCK1" 1300]
    collision_policy [of example_env "[big_obstacle TREE]" "Skier 0 0 0"
      "big_obstacle TREE" 300]
    collision_policy [of example_env "[big_obstacle JUMP_RAMP]" "Skier 0 0 0"
      "big_obstacle JUMP_RAMP" 300]
  by (simp add: skier_defs example_defs animation_completes_def Let_def)

subsection \<open>The jump animation\<close>

text \<open>
  C4. A jumping skier with the five-image, non-looping jump animation active and the
  frame cursor at 0 is advanced five times by \<open>animate\<close>, each time after more than the
  frame duration; before any advance the skier may be crashed. The first four advances
  keep the animation and fire no callback. The fifth advance fires the completion
  callback (once in all five advances), clears the active animation, and sets the state
  to skiing, unless the skier was crashed during the jump: then it stays crashed.
\<close>

theorem jump_animation_completes_on_fifth_advance:
  assumes "state s = STATE_JUMPING" and "curAnimation s = Some JUMP_ANIMATION"
    and "curAnimationFrame s = 0"
    and "ANIMATION_FRAME_SPEED_MS env < t1 - curAnimationFrameTime s"
    and "ANIMATION_FRAME_SPEED_MS env < t2 - t1"
    and "ANIMATION_FRAME_SPEED_MS env < t3 - t2"
    and "ANIMATION_FRAME_SPEED_MS env < t4 - t3"
    and "ANIMATION_FRAME_SPEED_MS env < t5 - t4"
  shows "\<exists>s4 s5.
           frame_advances env [(c1, t1), (c2, t2), (c3, t3), (c4, t4)] s = Inr s4 \<and>
           curAnimation s4 = Some JUMP_ANIMATION \<and> callbacksFired s4 = callbacksFired s \<and>
           state s4 = (if c1 \<or> c2 \<or> c3 \<or> c4 then STATE_CRASHED else STATE_JUMPING) \<and>
           frame_advances env [(c1, t1), (c2, t2), (c3, t3), (c4, t4), (c5, t5)] s = Inr s5 \<and>
           callbacksFired s5 = callbacksFired s + 1 \<and>
           curAnimation s5 = None \<and>
           state s5 = (if c1 \<or> c2 \<or> c3 \<or> c4 \<or> c5 then STATE_CRASHED else STATE_SKIING)"
  using assms
  by (simp add: animate_def nextAnimationFrame_def finishAnimation_def apply_callback_def
        finishJumping_def isCrashed_def crash_def Let_def JUMP_ANIMATION_def
        IMAGES_JUMPING_def)

theorem jump_animation_completes_on_fifth_advance_witness:
  "state (snd (handleInput KEYS_SPACE (Skier 0 0 0))) = STATE_JUMPING \<and>
   curAnimation (snd (handleInput KEYS_SPACE (Skier 0 0 0))) = Some JUMP_ANIMATION \<and>
   curAnimationFrame (snd (handleInput KEYS_SPACE (Skier 0 0 0))) = 0 \<and>
   ANIMATION_FRAME_SPEED_MS example_env
     < 300 - curAnimationFrameTime (snd (handleInput KEYS_SPACE (Skier 0 0 0))) \<and>
   ANIMATION_FRAME_SPEED_MS example_env < 600 - 300 \<and>
   state_after (frame_advances example_env
      [(False, 300), (False, 600), (False, 900), (False, 1200), (False, 1500)]
      (snd (handleInput KEYS_SPACE (Skier 0 0 0)))) = Some STATE_SKIING \<and>
   state_after (frame_advances example_env
      [(False, 300), (False, 600), (True, 900), (False, 1200), (False, 1500)]
      (snd (handleInput KEYS_SPACE (Skier 0 0 0)))) = Some STATE_CRASHED"
  using
    jump_animation_completes_on_fifth_advance [of "snd (handleInput KEYS_SPACE (Skier 0 0 0))"
      example_env 300 600 900 1200 1500 False False False False False]
    jump_animation_completes_on_fifth_advance [of "snd (handleInput KEYS_SPACE (Skier 0 0 0))"
      example_env 300 600 900 1200 1500 False False True False False]
  by (simp add: skier_defs example_defs Let_def)

text \<open>
  The same through the frame update: five frames of a jump, each later than the last
  by more than the frame duration, with no obstacle in the world, end the jump in the
  fifth frame.
\<close>

lemma five_frames_of_a_jump:
  assumes "state s = STATE_JUMPING" and "curAnimation s = Some JUMP_ANIMATION"
    and "curAnimationFrame s = 0"
    and "ANIMATION_FRAME_SPEED_MS env < t1 - curAnimationFrameTime s"
    and "ANIMATION_FRAME_SPEED_MS env < t2 - t1"
    and "ANIMATION_FRAME_SPEED_MS env < t3 - t2"
    and "ANIMATION_FRAME_SPEED_MS env < t4 - t3"
    and "ANIMATION_FRAME_SPEED_MS env < t5 - t4"
  shows "\<exists>s4 s5.
           run env [Update t1 [], Update t2 [], Update t3 [], Update t4 []] s = Inr s4 \<and>
           state s4 = STATE_JUMPING \<and> curAnimation s4 = Some JUMP_ANIMATION \<and>
           callbacksFired s4 = callbacksFired s \<and>
           run env [Update t1 [], Update t2 [], Update t3 [], Update t4 [], Update t5 []] s
             = Inr s5 \<and>
           state s5 = STATE_SKIING \<and> curAnimation s5 = None \<and>
           callbacksFired s5 = callbacksFired s + 1"
  using assms
  by (simp add: update_no_obstacles isJumping_def move_keeps animate_def nextAnimationFrame_def
        finishAnimation_def apply_callback_def finishJumping_def isCrashed_def Let_def
        JUMP_ANIMATION_def IMAGES_JUMPING_def)

subsection \<open>Stopped when crashed or dead\<close>

text \<open>
  C5. In every state reachable from the new skier by frame updates, inputs and the death
  trigger \<open>die\<close>, a skier that is crashed or dead has speed 0.
\<close>

theorem crashed_or_dead_has_speed_zero:
  "reachable env s \<Longrightarrow> state s \<in> {STATE_CRASHED, STATE_DEAD} \<Longrightarrow> speed s = 0"
  using reachable_stopped [of env s] by (simp add: stopped_inv_def)

theorem crashed_or_dead_has_speed_zero_witness:
  "reachable example_env crashed_skier \<and>
   state crashed_skier \<in> {STATE_CRASHED, STATE_DEAD} \<and>
   speed crashed_skier = 0 \<and>
   reachable example_env (die (Skier 0 0 0)) \<and>
   state (die (Skier 0 0 0)) \<in> {STATE_CRASHED, STATE_DEAD} \<and>
   speed (die (Skier 0 0 0)) = 0"
proof -
  have r1: "reachable example_env crashed_skier" by (rule reachable_crashed_skier)
  have r2: "reachable example_env (die (Skier 0 0 0))"
    by (rule reachable_die [OF reachable_new])
  have s1: "state crashed_skier \<in> {STATE_CRASHED, STATE_DEAD}"
    by (simp add: crashed_skier_def)
  have s2: "state (die (Skier 0 0 0)) \<in> {STATE_CRASHED, STATE_DEAD}"
    by (simp add: die_def)
  show ?thesis
    using r1 r2 s1 s2 crashed_or_dead_has_speed_zero [OF r1 s1]
      crashed_or_dead_has_speed_zero [OF r2 s2]
    by simp
qed

subsection \<open>Dead is terminal\<close>

text \<open>
  C6. Once the skier is dead, a frame update returns the skier as it is (no movement, no
  collision check, no animation step), every input is reported unhandled and leaves the
  skier as it is, and so does every sequence of frame updates and inputs: the state
  stays dead.
\<close>

theorem dead_is_terminal:
  assumes "state s = STATE_DEAD"
  shows "update env gameTime obstacles s = Inr s \<and> handleInput inputKey s = (False, s) \<and>
         run env ops s = Inr s"
  using assms by (simp add: update_dead handleInput_dead run_dead)

theorem dead_is_terminal_witness:
  "state (die (Skier 0 0 0)) = STATE_DEAD \<and>
   run example_env
     [Update 300 [big_obstacle TREE], HandleInput KEYS_LEFT, HandleInput KEYS_SPACE,
      Update 600 []]
     (die (Skier 0 0 0)) = Inr (die (Skier 0 0 0))"
proof -
  have d: "state (die (Skier 0 0 0)) = STATE_DEAD" by (simp add: die_def)
  show ?thesis using d dead_is_terminal [OF d, of example_env] by simp
qed

subsection \<open>Movement\<close>

text \<open>
  C7. A skier at (100,100) that is skiing, faces down and has speed 1 is updated for one
  frame in which no obstacle overlaps its bounds: \<open>y\<close> grows by exactly 1, to 101, and
  \<open>x\<close> stays 100.
\<close>

theorem skiing_down_one_frame:
  assumes "entity_x s = 100" and "entity_y s = 100" and "state s = STATE_SKIING"
    and "direction s = DIRECTION_DOWN" and "speed s = 1"
    and "first_overlap env obstacles (move env s) = None"
  shows "\<exists>s'. update env gameTime obstacles s = Inr s' \<and>
              entity_y s' = entity_y s + 1 \<and> entity_y s' = 101 \<and>
              entity_x s' = entity_x s \<and> entity_x s' = 100"
  using assms
  by (simp add: update_def checkIfHitObstacle_first_overlap isJumping_def isSkiing_def move_keeps)
     (simp add: move_def moveSkierDown_def DIRECTION_DOWN_def DIRECTION_LEFT_DOWN_def)

theorem skiing_down_one_frame_witness:
  "entity_x (Skier 100 100 0) = 100 \<and> entity_y (Skier 100 100 0) = 100 \<and>
   state (Skier 100 100 0) = STATE_SKIING \<and> direction (Skier 100 100 0) = DIRECTION_DOWN \<and>
   speed (Skier 100 100 0) = 1 \<and>
   first_overlap example_env [] (move example_env (Skier 100 100 0)) = None \<and>
   update example_env 16 [] (Skier 100 100 0) = Inr ((Skier 100 100 0)\<lparr>entity_y := 101\<rparr>)"
  using skiing_down_one_frame [of "Skier 100 100 0" example_env "[]" 16]
  by (simp add: skier_defs example_defs Let_def)

subsection \<open>Bounds\<close>

text \<open>
  C8. When the image manager gives width \<open>w\<close> and height \<open>h\<close> for the current sprite,
  the bounds of the skier at \<open>(x, y)\<close> are left \<open>x - w/2\<close>, top \<open>y - h/2\<close>, right
  \<open>x + w/2\<close> and bottom \<open>y - h/4\<close>.
\<close>

theorem getBounds_rectangle:
  assumes "getImage env (imageName s) = \<lparr>width = w, height = h\<rparr>"
  shows "getBounds env s =
           \<lparr>rect_left = entity_x s - w / 2, rect_top = entity_y s - h / 2,
            rect_right = entity_x s + w / 2, rect_bottom = entity_y s - h / 4\<rparr>"
  using assms by (simp add: getBounds_def Let_def)

theorem getBounds_rectangle_witness:
  "getImage example_env (imageName (Skier 100 100 0)) = \<lparr>width = 20, height = 40\<rparr> \<and>
   getBounds example_env (Skier 100 100 0) =
     \<lparr>rect_left = 90, rect_top = 80, rect_right = 110, rect_bottom = 90\<rparr>"
proof -
  have g: "getImage example_env (imageName (Skier 100 100 0)) = \<lparr>width = 20, height = 40\<rparr>"
    by (simp add: example_env_def)
  show ?thesis using g getBounds_rectangle [OF g] by (simp add: skier_defs)
qed

subsection \<open>Turning while jumping\<close>

text \<open>
  C9, as claimed, fails: a turn-left input on a jumping skier need not change the
  direction nor overwrite the image. The skier \<open>jumper_facing_left\<close> jumps while facing
  full left; the turn-left input is handled, moves it to the left, and leaves the
  direction and the image (the first image of the jump, not the sprite of the
  direction) as they are.
\<close>

theorem turn_while_jumping_counterexample:
  "state jumper_facing_left = STATE_JUMPING \<and>
   direction jumper_facing_left = DIRECTION_LEFT \<and>
   imageName jumper_facing_left = Some SKIER_JUMP1 \<and>
   fst (handleInput KEYS_LEFT jumper_facing_left) \<and>
   direction (snd (handleInput KEYS_LEFT jumper_facing_left)) = direction jumper_facing_left \<and>
   imageName (snd (handleInput KEYS_LEFT jumper_facing_left)) = imageName jumper_facing_left \<and>
   imageName (snd (handleInput KEYS_LEFT jumper_facing_left))
     \<noteq> DIRECTION_IMAGES (direction (snd (handleInput KEYS_LEFT jumper_facing_left)))"
  by (simp add: skier_defs example_defs Let_def)

text \<open>
  C9, amended. While the skier is jumping, the turn-left, turn-right and turn-down
  inputs are handled; the state stays jumping and the active animation and its frame
  cursor are unchanged. Turn-down sets the direction to down and overwrites the image
  with the sprite of that direction. Turn-left steps the direction by one and
  overwrites the image with the sprite of the new direction, unless the skier already
  faces full left: then the direction and the image stay as they are and \<open>x\<close> decreases
  by the fixed increment. Turn-right is symmetric.
\<close>

theorem turn_while_jumping:
  assumes "state s = STATE_JUMPING"
  shows "handleInput KEYS_LEFT s =
           (True, if direction s = DIRECTION_LEFT
                  then s\<lparr>entity_x := entity_x s - STARTING_SPEED\<rparr>
                  else s\<lparr>direction := direction s - 1,
                         imageName := DIRECTION_IMAGES (direction s - 1)\<rparr>) \<and>
         handleInput KEYS_RIGHT s =
           (True, if direction s = DIRECTION_RIGHT
                  then s\<lparr>entity_x := entity_x s + STARTING_SPEED\<rparr>
                  else s\<lparr>direction := direction s + 1,
                         imageName := DIRECTION_IMAGES (direction s + 1)\<rparr>) \<and>
         handleInput KEYS_DOWN s =
           (True, s\<lparr>direction := DIRECTION_DOWN,
                    imageName := DIRECTION_IMAGES DIRECTION_DOWN\<rparr>) \<and>
         (\<forall>inputKey \<in> {KEYS_LEFT, KEYS_RIGHT, KEYS_DOWN}.
            state (snd (handleInput inputKey s)) = STATE_JUMPING \<and>
            curAnimation (snd (handleInput inputKey s)) = curAnimation s \<and>
            curAnimationFrame (snd (handleInput inputKey s)) = curAnimationFrame s)"
  using assms
  by (simp add: handleInput_def isDead_def isCrashed_def turnLeft_def turnRight_def turnDown_def
        setDirection_def setDirectionalImage_def moveSkierLeft_def moveSkierRight_def Let_def)

theorem turn_while_jumping_witness:
  "state jumper_facing_left = STATE_JUMPING \<and>
   handleInput KEYS_LEFT jumper_facing_left =
     (True, jumper_facing_left\<lparr>entity_x := -1\<rparr>) \<and>
   state (snd (handleInput KEYS_SPACE (Skier 0 0 0))) = STATE_JUMPING \<and>
   handleInput KEYS_LEFT (snd (handleInput KEYS_SPACE (Skier 0 0 0))) =
     (True, snd (handleInput KEYS_SPACE (Skier 0 0 0))
              \<lparr>direction := DIRECTION_LEFT_DOWN, imageName := Some SKIER_LEFTDOWN\<rparr>) \<and>
   KEYS_DOWN \<in> {KEYS_LEFT, KEYS_RIGHT, KEYS_DOWN} \<and>
   curAnimation (snd (handleInput KEYS_DOWN jumper_facing_left)) = Some JUMP_ANIMATION"
  using turn_while_jumping [of jumper_facing_left]
    turn_while_jumping [of "snd (handleInput KEYS_SPACE (Skier 0 0 0))"]
  by (simp add: skier_defs example_defs Let_def)

subsection \<open>Recovering from a crash\<close>

text \<open>
  C10, as claimed, fails in its last sentence: the recovery need not change the
  direction. The skier \<open>crashed_facing_left\<close> is reached from the new skier by two
  turns to the left and a frame in which a tree overlaps it (facing full left it does
  not move in the frame, but the collision check still runs). The turn-left input
  recovers it, and its direction is full left before and after.
\<close>

theorem crash_recovery_direction_counterexample:
  "run example_env
     [HandleInput KEYS_LEFT, HandleInput KEYS_LEFT, Update 300 [big_obstacle TREE]]
     (Skier 0 0 0) = Inr crashed_facing_left \<and>
   state crashed_facing_left = STATE_CRASHED \<and>
   fst (handleInput KEYS_LEFT crashed_facing_left) \<and>
   state (snd (handleInput KEYS_LEFT crashed_facing_left)) = STATE_SKIING \<and>
   direction (snd (handleInput KEYS_LEFT crashed_facing_left)) = direction crashed_facing_left"
  by (simp add: skier_defs example_defs Let_def)

text \<open>
  C10, amended. A turn-left input on a crashed skier is handled and, in the one call,
  sets the state to skiing, the speed to the starting speed, the direction to full left
  and the image to the sprite of that direction, and, the direction now being full
  left, moves the skier left by the fixed increment: \<open>x\<close> decreases. Turn-right is
  symmetric and \<open>x\<close> increases. So the recovery always changes the position and the
  state, changes the speed of a stopped skier, and sets the direction to the requested
  side, which changes the direction exactly when the skier did not already face that
  side.
\<close>

theorem crash_recovery_moves:
  assumes "state s = STATE_CRASHED"
  shows "handleInput KEYS_LEFT s =
           (True, s\<lparr>state := STATE_SKIING, speed := STARTING_SPEED,
                    direction := DIRECTION_LEFT, imageName := Some SKIER_LEFT,
                    entity_x := entity_x s - STARTING_SPEED\<rparr>) \<and>
         handleInput KEYS_RIGHT s =
           (True, s\<lparr>state := STATE_SKIING, speed := STARTING_SPEED,
                    direction := DIRECTION_RIGHT, imageName := Some SKIER_RIGHT,
                    entity_x := entity_x s + STARTING_SPEED\<rparr>) \<and>
         entity_x (snd (handleInput KEYS_LEFT s)) < entity_x s \<and>
         entity_x s < entity_x (snd (handleInput KEYS_RIGHT s)) \<and>
         state (snd (handleInput KEYS_LEFT s)) \<noteq> state s \<and>
         state (snd (handleInput KEYS_RIGHT s)) \<noteq> state s \<and>
         (speed s = 0 \<longrightarrow> speed (snd (handleInput KEYS_LEFT s)) \<noteq> speed s \<and>
                          speed (snd (handleInput KEYS_RIGHT s)) \<noteq> speed s) \<and>
         (direction (snd (handleInput KEYS_LEFT s)) = direction s)
           = (direction s = DIRECTION_LEFT) \<and>
         (direction (snd (handleInput KEYS_RIGHT s)) = direction s)
           = (direction s = DIRECTION_RIGHT)"
  using assms
  by (auto simp add: handleInput_def isDead_def isCrashed_def turnLeft_def turnRight_def
        recoverFromCrash_def setDirection_def setDirectionalImage_def moveSkierLeft_def
        moveSkierRight_def Let_def DIRECTION_IMAGES_def DIRECTION_LEFT_def DIRECTION_RIGHT_def
        DIRECTION_LEFT_DOWN_def DIRECTION_DOWN_def DIRECTION_RIGHT_DOWN_def STARTING_SPEED_def)

theorem crash_recovery_moves_witness:
  "state crashed_skier = STATE_CRASHED \<and> speed crashed_skier = 0 \<and>
   handleInput KEYS_LEFT crashed_skier =
     (True, (Skier 0 0 0)\<lparr>entity_y := 1, direction := DIRECTION_LEFT,
               imageName := Some SKIER_LEFT, entity_x := -1\<rparr>) \<and>
   handleInput KEYS_RIGHT crashed_skier =
     (True, (Skier 0 0 0)\<lparr>entity_y := 1, direction := DIRECTION_RIGHT,
               imageName := Some SKIER_RIGHT, entity_x := 1\<rparr>) \<and>
   direction (snd (handleInput KEYS_LEFT crashed_skier)) \<noteq> direction crashed_skier \<and>
   state crashed_facing_left = STATE_CRASHED \<and> speed crashed_facing_left = 0 \<and>
   handleInput KEYS_LEFT crashed_facing_left =
     (True, (Skier 0 0 0)\<lparr>direction := DIRECTION_LEFT, imageName := Some SKIER_LEFT,
               entity_x := -1\<rparr>) \<and>
   direction (snd (handleInput KEYS_RIGHT crashed_facing_left))
     \<noteq> direction crashed_facing_left"
  using crash_recovery_moves [of crashed_skier] crash_recovery_moves [of crashed_facing_left]
  by (simp add: skier_defs example_defs Let_def)

end
